theory Spec2Isabelle
  imports Main
begin

section \<open>Data model of fftranscode.py\<close>

text \<open>
  Python text (\<open>str\<close>) is modelled as \<open>string\<close>: one \<open>char\<close> per code point, which
  covers the code points below 256. Byte strings (the output of \<open>ffmpeg -version\<close>) are
  \<open>string\<close> as well, one \<open>char\<close> per byte. Calls to the logger write to a sink and
  influence neither the control flow nor the object, so they are left out.
\<close>

type_synonym str = string

type_synonym bytes = string

datatype exn =
    UnboundLocalError
  | UnicodeDecodeError
  | OSError
  | AttributeError
  | Exception str
  | SystemExit int

datatype 'a result = Return 'a | Raise exn | Hang

text \<open>
  A \<open>subprocess.Popen\<close> object together with the child it stands for. \<open>returncode\<close>
  is the attribute of the Python object. The child is described by what the operating
  system answers: left alone, it is reported as still running by the first
  \<open>exits_after\<close> status queries and as exited with \<open>exit_status\<close> by every later
  one (\<open>None\<close>: it never exits by itself). \<open>os_queries\<close> counts the status queries made
  so far, \<open>os_events\<close> records the signals sent to the child and the blocking waits.
\<close>

datatype os_event = Sent_SIGKILL | Blocked_wait

record popen =
  argv :: "str list"
  returncode :: "int option"
  exits_after :: "nat option"
  exit_status :: int
  os_queries :: nat
  os_events :: "os_event list"

text \<open>The attributes of a \<open>Fftranscode\<close> object. \<open>running\<close> does not exist before
  \<open>transcode\<close> sets it (\<open>None\<close>).\<close>

record fftranscode =
  niced :: bool
  input_file :: str
  output_file :: str
  codec_lib :: str
  profile :: str
  level :: str
  preset :: str
  crf :: str
  tune :: str
  extra :: str
  subprocess_out :: str
  interactive :: bool
  num_waits :: int
  max_waits :: int
  wait_interval :: int
  exit_code :: "int option"
  sp :: "popen option"
  ffmpeg_ver :: "str option"
  running :: "bool option"

text \<open>\<open>Fftranscode.__init__\<close> (lines 155-177).\<close>

definition Fftranscode_init ::
  "bool \<Rightarrow> str \<Rightarrow> str \<Rightarrow> str \<Rightarrow> str \<Rightarrow> str \<Rightarrow> str \<Rightarrow> str \<Rightarrow> str \<Rightarrow> str \<Rightarrow> str \<Rightarrow> bool
    \<Rightarrow> fftranscode" where
  "Fftranscode_init niced' input_file' output_file' codec_lib' profile' level' preset' crf'
      tune' extra' subprocess_out' interactive' =
    \<lparr> niced = niced', input_file = input_file', output_file = output_file',
      codec_lib = codec_lib', profile = profile', level = level', preset = preset',
      crf = crf', tune = tune', extra = extra', subprocess_out = subprocess_out',
      interactive = interactive', num_waits = 0, max_waits = 604800, wait_interval = 1,
      exit_code = None, sp = None, ffmpeg_ver = None, running = None \<rparr>"

section \<open>Python string operations used by the argument builder\<close>

text \<open>\<open>str.isspace\<close> on one code point below 256: TAB, LF, VT, FF, CR, FS, GS, RS, US,
  space, NEL (0x85) and the no-break space (0xA0).\<close>

definition py_isspace :: "char \<Rightarrow> bool" where
  "py_isspace c =
    (let n = (of_char c :: nat)
     in (9 \<le> n \<and> n \<le> 13) \<or> (28 \<le> n \<and> n \<le> 32) \<or> n = 133 \<or> n = 160)"

text \<open>\<open>str.split()\<close> without arguments: the maximal runs of characters that are not
  whitespace, in order; leading, trailing and repeated whitespace yields no empty token.
  \<open>split_ws tok cs\<close> reads \<open>cs\<close> with the token \<open>tok\<close> collected so far.\<close>

fun split_ws :: "str \<Rightarrow> str \<Rightarrow> str list" where
  "split_ws tok [] = (if tok = [] then [] else [tok])"
| "split_ws tok (c # cs) =
    (if py_isspace c then (if tok = [] then split_ws [] cs else tok # split_ws [] cs)
     else split_ws (tok @ [c]) cs)"

definition py_split :: "str \<Rightarrow> str list" where
  "py_split s = split_ws [] s"

text \<open>The slice \<open>s[:-4]\<close>: all but the last four characters, empty when \<open>s\<close> has at
  most four.\<close>

definition drop_last4 :: "str \<Rightarrow> str" where
  "drop_last4 s = take (length s - 4) s"

text \<open>\<open>"%s" % v\<close> for the attribute \<open>ffmpeg_ver\<close>, which is \<open>None\<close> or a \<open>str\<close>.\<close>

definition str_of_ver :: "str option \<Rightarrow> str" where
  "str_of_ver v = (case v of None \<Rightarrow> ''None'' | Some t \<Rightarrow> t)"

section \<open>The argument builder\<close>

text \<open>\<open>Fftranscode.gen_output_file_name\<close> (lines 201-211).\<close>

definition gen_output_file_name :: "fftranscode \<Rightarrow> str" where
  "gen_output_file_name s =
    (let file_name = drop_last4 (input_file s) @ '' - ffmpeg:'' @ str_of_ver (ffmpeg_ver s)
           @ ''_c:'' @ codec_lib s @ ''_p:'' @ profile s @ ''_l:'' @ level s
           @ ''_r:'' @ preset s @ ''_f:'' @ crf s;
         file_name = (if tune s \<noteq> '''' then file_name @ ''_t:'' @ tune s else file_name)
     in file_name @ ''.mkv'')"

text \<open>\<open>Fftranscode.gen_transcode_args\<close> (lines 213-256). It returns the list and the
  object, whose attribute \<open>output_file\<close> line 252 assigns.\<close>

definition gen_transcode_args :: "fftranscode \<Rightarrow> str list \<times> fftranscode" where
  "gen_transcode_args s =
    (let args = [''ffmpeg'', ''-hide_banner'', ''-n'', ''-i'', input_file s, ''-map'', ''0'',
                 ''-codec:a'', ''copy'', ''-codec:s'', ''copy'', ''-codec:v'', codec_lib s,
                 ''-profile:v'', profile s, ''-level'', level s, ''-preset'', preset s,
                 ''-crf'', crf s];
         args = (if niced s = True then ''nice'' # args else args);
         args = (if tune s \<noteq> '''' then args @ [''-tune'', tune s] else args);
         args = (if extra s \<noteq> '''' then args @ py_split (extra s) else args);
         args = (if interactive s = False then args @ [''-nostdin''] else args);
         s = (if output_file s = '''' then s\<lparr>output_file := gen_output_file_name s\<rparr> else s);
         args = args @ [output_file s]
     in (args, s))"

section \<open>The process supervisor\<close>

text \<open>
  A call either returns a value, raises, or never returns (\<open>Hang\<close>: a blocking wait on a
  child that does not exit). Every function returns the object as it stands at that
  moment next to the result, so that a handler can go on from the state at the raise.
\<close>

fun bind_result :: "'a result \<times> 's \<Rightarrow> ('a \<Rightarrow> 's \<Rightarrow> 'b result \<times> 's) \<Rightarrow> 'b result \<times> 's" where
  "bind_result (Return x, s) f = f x s"
| "bind_result (Raise e, s) f = (Raise e, s)"
| "bind_result (Hang, s) f = (Hang, s)"

subsection \<open>The \<open>subprocess.Popen\<close> methods the supervisor calls\<close>

text \<open>What the operating system answers to a status query on the child.\<close>

definition os_answer :: "popen \<Rightarrow> int option" where
  "os_answer p =
    (case exits_after p of
       None \<Rightarrow> None
     | Some n \<Rightarrow> if os_queries p < n then None else Some (exit_status p))"

text \<open>\<open>Popen.poll()\<close>: a known return code is kept; otherwise the operating system is
  asked once and its answer stored.\<close>

definition sp_poll :: "popen \<Rightarrow> popen" where
  "sp_poll p =
    (if returncode p \<noteq> None then p
     else p\<lparr>returncode := os_answer p, os_queries := Suc (os_queries p)\<rparr>)"

text \<open>\<open>Popen.kill()\<close> (CPython 3.9 and later): polls, and sends SIGKILL unless the
  child is known to have exited.\<close>

definition sp_kill :: "popen \<Rightarrow> popen" where
  "sp_kill p =
    (let p = sp_poll p
     in if returncode p = None then p\<lparr>os_events := os_events p @ [Sent_SIGKILL]\<rparr> else p)"

text \<open>\<open>Popen.wait()\<close>: returns at once when the return code is known; otherwise blocks
  until the child is gone and stores its status, \<open>-9\<close> for a child that was sent SIGKILL.
  It never returns (\<open>None\<close>) for a child that was not signalled and does not exit by
  itself.\<close>

definition sp_wait :: "popen \<Rightarrow> popen option" where
  "sp_wait p =
    (if returncode p \<noteq> None then Some p
     else if Sent_SIGKILL \<in> set (os_events p)
       then Some (p\<lparr>returncode := Some (- 9), os_events := os_events p @ [Blocked_wait]\<rparr>)
     else (case exits_after p of
             None \<Rightarrow> None
           | Some n \<Rightarrow> Some (p\<lparr>returncode := Some (exit_status p),
                               os_events := os_events p @ [Blocked_wait]\<rparr>)))"

subsection \<open>Cancelling and polling\<close>

text \<open>\<open>Fftranscode.cancel_transcode\<close> (lines 179-187); \<open>sys.exit(2)\<close> raises
  \<open>SystemExit(2)\<close>.\<close>

definition cancel_transcode :: "bool \<Rightarrow> fftranscode \<Rightarrow> unit result \<times> fftranscode" where
  "cancel_transcode exit s =
    bind_result
      (case sp s of
         None \<Rightarrow> (Return (), s)
       | Some p \<Rightarrow>
           (let p = sp_kill p
            in case sp_wait p of
                 None \<Rightarrow> (Hang, s\<lparr>sp := Some p\<rparr>)
               | Some p \<Rightarrow> (Return (), s\<lparr>sp := Some p\<rparr>)))
      (\<lambda>_ s. if exit then (Raise (SystemExit 2), s) else (Return (), s))"

text \<open>\<open>Fftranscode.handle_subprocess\<close> (lines 189-199). Were \<open>cancel_transcode\<close> to
  return with \<open>sp\<close> still \<open>None\<close>, line 194 would raise \<open>AttributeError\<close>.\<close>

definition handle_subprocess :: "fftranscode \<Rightarrow> unit result \<times> fftranscode" where
  "handle_subprocess s =
    bind_result (if sp s = None then cancel_transcode True s else (Return (), s))
      (\<lambda>_ s. case sp s of
                None \<Rightarrow> (Raise AttributeError, s)
              | Some p \<Rightarrow>
                  (let p = sp_poll p; s = s\<lparr>sp := Some p\<rparr>
                   in case returncode p of
                        None \<Rightarrow> (Return (), s)
                      | Some rc \<Rightarrow> (Return (), s\<lparr>running := Some False, exit_code := Some rc\<rparr>)))"

text \<open>The polling loop of \<open>Fftranscode.transcode\<close> (lines 290-294); \<open>time.sleep\<close> only
  lets time pass.\<close>

function transcode_loop :: "fftranscode \<Rightarrow> unit result \<times> fftranscode" where
  "transcode_loop s =
    (if running s = Some True \<and> num_waits s < max_waits s then
       (case handle_subprocess (s\<lparr>num_waits := num_waits s + 1\<rparr>) of
          (Return u, s') \<Rightarrow> transcode_loop s'
        | (Raise e, s') \<Rightarrow> (Raise e, s')
        | (Hang, s') \<Rightarrow> (Hang, s'))
     else (Return (), s))"
  by pat_completeness auto
termination
proof (relation "measure (\<lambda>s. nat (max_waits s - num_waits s))")
  show "wf (measure (\<lambda>s. nat (max_waits s - num_waits s)))" by simp
next
  fix s :: fftranscode and x y u
  assume c: "running s = Some True \<and> num_waits s < max_waits s"
    and h: "(x, y) = handle_subprocess (s\<lparr>num_waits := num_waits s + 1\<rparr>)"
  have frame: "num_waits (snd (handle_subprocess t)) = num_waits t \<and>
      max_waits (snd (handle_subprocess t)) = max_waits t" for t
    by (auto simp add: handle_subprocess_def cancel_transcode_def Let_def split: option.splits)
  have "y = snd (handle_subprocess (s\<lparr>num_waits := num_waits s + 1\<rparr>))"
    using h by (metis snd_conv)
  then have "num_waits y = num_waits s + 1" "max_waits y = max_waits s"
    using frame [of "s\<lparr>num_waits := num_waits s + 1\<rparr>"] by simp_all
  with c show "(y, s) \<in> measure (\<lambda>s. nat (max_waits s - num_waits s))" by simp
qed

declare transcode_loop.simps [simp del]

subsection \<open>The engine version\<close>

text \<open>\<open>re.compile(b'^ffmpeg version (.+) Copyright').match(buff)\<close>, giving group 1 of
  the match: the pattern is tried at the start of \<open>buff\<close> only, \<open>.\<close> matches every byte
  but the line feed, and \<open>.+\<close> is greedy, so the group runs up to the last
  \<open>" Copyright"\<close> of the first line that leaves it at least one byte.\<close>

definition re_match_banner :: "bytes \<Rightarrow> bytes option" where
  "re_match_banner buff =
    (if take 15 buff = ''ffmpeg version '' then
       (let line = takeWhile (\<lambda>c. c \<noteq> CHR 0x0A) (drop 15 buff)
        in case find (\<lambda>k. take 10 (drop k line) = '' Copyright'') (rev [1..<length line]) of
             None \<Rightarrow> None
           | Some k \<Rightarrow> Some (take k line))
     else None)"

text \<open>The processes started so far, each by its argument vector, oldest first.\<close>

type_synonym procs = "str list list"

text \<open>
  \<open>Fftranscode.get_ffencode_version\<close> (lines 258-270). \<open>out\<close> is the standard output of
  \<open>ffmpeg -version\<close>, \<open>None\<close> when \<open>Popen\<close> could not start it (\<open>OSError\<close>).
  \<open>decode\<close> stands for \<open>bytes.decode('UTF-8')\<close>, \<open>None\<close> being its \<open>UnicodeDecodeError\<close>.
  The local variable \<open>ver\<close> is bound in the branch of line 264 only (\<open>None\<close>: unbound),
  and line 270 reads it on every path.
\<close>

definition get_ffencode_version ::
  "(bytes \<Rightarrow> str option) \<Rightarrow> bytes option \<Rightarrow> fftranscode \<times> procs
    \<Rightarrow> unit result \<times> (fftranscode \<times> procs)" where
  "get_ffencode_version decode out = (\<lambda>(s, ps).
    (case out of
       None \<Rightarrow> (Raise OSError, (s, ps))
     | Some buff \<Rightarrow>
         (let ps = ps @ [[''ffmpeg'', ''-version'']];
              m = re_match_banner buff
          in bind_result
               (case m of
                  Some g \<Rightarrow>
                    (case decode g of
                       None \<Rightarrow> (Raise UnicodeDecodeError, (s, ps))
                     | Some ver \<Rightarrow> (Return (Some ver), (s, ps)))
                | None \<Rightarrow> (Return None, (s, ps)))
               (\<lambda>ver (s, ps).
                  case ver of
                    None \<Rightarrow> (Raise UnboundLocalError, (s, ps))
                  | Some v \<Rightarrow> (Return (), (s\<lparr>ffmpeg_ver := Some v\<rparr>, ps))))))"

text \<open>The UTF-8 codec on 7-bit input, where it is the identity: the instance of
  \<open>decode\<close> for the ASCII banners of the examples below. It answers \<open>None\<close> on every
  other input, which is the codec's answer for ill-formed input only, so the general
  statements keep \<open>decode\<close> as a parameter.\<close>

definition decode_ascii :: "bytes \<Rightarrow> str option" where
  "decode_ascii b = (if list_all (\<lambda>c. (of_char c :: nat) < 128) b then Some b else None)"

subsection \<open>\<open>transcode\<close>\<close>

text \<open>\<open>"%s" % n\<close> for an integer: its decimal digits, with a minus sign when negative.\<close>

function str_nat :: "nat \<Rightarrow> str" where
  "str_nat n =
    (if n < 10 then [''0123456789'' ! n]
     else str_nat (n div 10) @ [''0123456789'' ! (n mod 10)])"
  by pat_completeness auto
termination
  by (relation "measure id") auto

definition str_int :: "int \<Rightarrow> str" where
  "str_int i = (if i < 0 then CHR ''-'' # str_nat (nat (- i)) else str_nat (nat i))"

text \<open>What the surroundings answer during one run: whether \<open>open(subprocess_out, 'w')\<close>
  succeeds, the output of \<open>ffmpeg -version\<close>, whether \<open>Popen(args)\<close> starts the child,
  and how that child behaves when left alone.\<close>

record env =
  open_ok :: bool
  version_out :: "bytes option"
  spawn_ok :: bool
  child_exits_after :: "nat option"
  child_exit_status :: int

text \<open>The object \<open>subprocess.Popen(args, ...)\<close> returns at line 287 for a child that
  has started: nothing is known of its exit yet, and nothing has been asked or sent.\<close>

definition new_child :: "env \<Rightarrow> str list \<Rightarrow> popen" where
  "new_child e args =
    \<lparr>argv = args, returncode = None, exits_after = child_exits_after e,
     exit_status = child_exit_status e, os_queries = 0, os_events = []\<rparr>"

text \<open>\<open>Fftranscode.transcode\<close> (lines 272-299).\<close>

definition transcode ::
  "(bytes \<Rightarrow> str option) \<Rightarrow> env \<Rightarrow> fftranscode \<times> procs
    \<Rightarrow> int option result \<times> (fftranscode \<times> procs)" where
  "transcode decode e = (\<lambda>(s, ps).
    if subprocess_out s \<noteq> ''-'' \<and> \<not> open_ok e then (Raise OSError, (s, ps))
    else
      bind_result (get_ffencode_version decode (version_out e) (s, ps))
        (\<lambda>_ (s, ps).
           let (args, s) = gen_transcode_args s
           in if \<not> spawn_ok e then (Raise OSError, (s, ps))
              else
                (let s = s\<lparr>sp := Some (new_child e args)\<rparr>;
                     ps = ps @ [args];
                     s = s\<lparr>running := Some True\<rparr>
                 in bind_result (case transcode_loop s of (r, s) \<Rightarrow> (r, (s, ps)))
                      (\<lambda>_ (s, ps).
                         if num_waits s = max_waits s
                         then (Raise (Exception (''Transcode took longer tham max ''
                                 @ str_int (max_waits s * wait_interval s) @ '' seconds.'')),
                               (s, ps))
                         else (Return (exit_code s), (s, ps))))))"

subsection \<open>The script\<close>

text \<open>The options \<open>optparse\<close> hands over (lines 28-149, 307).\<close>

record options =
  opt_input_file :: str
  opt_output_file :: str
  opt_verbose :: bool
  opt_not_nice :: bool
  opt_interactive :: bool
  opt_codec :: str
  opt_profile :: str
  opt_level :: str
  opt_preset :: str
  opt_crf :: str
  opt_tune :: str
  opt_extra :: str
  opt_subprocess_out_file :: str

text \<open>What \<open>print\<close> wrote: a line of text, the \<open>repr\<close> of the object, or the text of an
  exception. How the interpreter ends: through \<open>sys.exit\<close>, through an exception nobody
  caught, or not at all.\<close>

datatype printed = Line str | Repr fftranscode | Str_exn exn

datatype ending = SysExit "int option" | Traceback exn | Never

record run =
  ending :: ending
  stdout :: "printed list"
  children :: procs
  final :: "fftranscode option"

text \<open>An exception that reaches the top level: \<open>SystemExit\<close> ends the interpreter with
  its status, anything else with a traceback.\<close>

definition uncaught :: "exn \<Rightarrow> ending" where
  "uncaught x = (case x of SystemExit n \<Rightarrow> SysExit (Some n) | _ \<Rightarrow> Traceback x)"

text \<open>The script body (lines 304-326). \<open>except Exception\<close> does not catch \<open>SystemExit\<close>;
  the signal handler of line 314 acts on an asynchronous interrupt only, which this
  sequential model leaves out.\<close>

definition main :: "(bytes \<Rightarrow> str option) \<Rightarrow> env \<Rightarrow> options \<Rightarrow> run" where
  "main decode e opts =
    (if length (opt_input_file opts) > 0 then
       (let fftranscode = Fftranscode_init (\<not> opt_not_nice opts) (opt_input_file opts)
              (opt_output_file opts) (opt_codec opts) (opt_profile opts) (opt_level opts)
              (opt_preset opts) (opt_crf opts) (opt_tune opts) (opt_extra opts)
              (opt_subprocess_out_file opts) (opt_interactive opts);
            out = [Repr fftranscode]
        in case transcode decode e (fftranscode, []) of
             (Return ec, (s, ps)) \<Rightarrow>
               \<lparr>ending = SysExit ec, stdout = out, children = ps, final = Some s\<rparr>
           | (Hang, (s, ps)) \<Rightarrow>
               \<lparr>ending = Never, stdout = out, children = ps, final = Some s\<rparr>
           | (Raise (SystemExit n), (s, ps)) \<Rightarrow>
               \<lparr>ending = SysExit (Some n), stdout = out, children = ps, final = Some s\<rparr>
           | (Raise x, (s, ps)) \<Rightarrow>
               (let out = out @ [Str_exn x]
                in case cancel_transcode False s of
                     (Return u, s) \<Rightarrow>
                       \<lparr>ending = Traceback x, stdout = out, children = ps, final = Some s\<rparr>
                   | (Raise y, s) \<Rightarrow>
                       \<lparr>ending = uncaught y, stdout = out, children = ps, final = Some s\<rparr>
                   | (Hang, s) \<Rightarrow>
                       \<lparr>ending = Never, stdout = out, children = ps, final = Some s\<rparr>))
     else \<lparr>ending = SysExit (Some 1), stdout = [Line ''ERROR: input file must be set.''],
            children = [], final = None\<rparr>)"

section \<open>Inputs of the examples\<close>

text \<open>The options at their defaults with the input file \<open>movie.mp4\<close>, as line 313
  builds the object from them.\<close>

definition movie_config :: fftranscode where
  "movie_config =
    Fftranscode_init True ''movie.mp4'' '''' ''libx264'' ''High'' ''6.2'' ''9'' ''17'' '''' ''''
      ''-'' False"

text \<open>The strings of a configuration that reach the argument vector as they are.\<close>

definition user_tokens :: "fftranscode \<Rightarrow> str list" where
  "user_tokens s =
    [input_file s, codec_lib s, profile s, level s, preset s, crf s, tune s]
      @ py_split (extra s) @ [output_file s]"

text \<open>A banner as \<open>ffmpeg -version\<close> prints it first, and the surroundings in which the
  file for the output opens, the engine prints that banner and the child starts; the
  child is left as a parameter.\<close>

definition banner :: bytes where
  "banner = ''ffmpeg version 6.0 Copyright (c) 2000-2023 the FFmpeg developers''"

definition env_of_child :: "nat option \<Rightarrow> int \<Rightarrow> env" where
  "env_of_child n c =
    \<lparr>open_ok = True, version_out = Some banner, spawn_ok = True,
     child_exits_after = n, child_exit_status = c\<rparr>"

text \<open>The options at their defaults (lines 32-147), the input file not given.\<close>

definition default_options :: options where
  "default_options =
    \<lparr>opt_input_file = '''', opt_output_file = '''', opt_verbose = False, opt_not_nice = False,
     opt_interactive = False, opt_codec = ''libx264'', opt_profile = ''High'',
     opt_level = ''6.2'', opt_preset = ''9'', opt_crf = ''17'', opt_tune = '''',
     opt_extra = '''', opt_subprocess_out_file = ''-''\<rparr>"

section \<open>Notions the statements about the supervisor use\<close>

text \<open>The exception of line 297.\<close>

definition timeout_exn :: "fftranscode \<Rightarrow> exn" where
  "timeout_exn s =
    Exception (''Transcode took longer tham max ''
      @ str_int (max_waits s * wait_interval s) @ '' seconds.'')"

text \<open>A child exists and has not exited: the object holds a \<open>Popen\<close> without a return
  code, and the operating system reports its child as still running.\<close>

definition child_alive :: "fftranscode \<Rightarrow> bool" where
  "child_alive s =
    (case sp s of None \<Rightarrow> False | Some p \<Rightarrow> returncode p = None \<and> os_answer p = None)"

text \<open>The signals sent to the child of the object and the blocking waits on it.\<close>

definition events_of :: "fftranscode \<Rightarrow> os_event list" where
  "events_of s = (case sp s of None \<Rightarrow> [] | Some p \<Rightarrow> os_events p)"

text \<open>The version \<open>get_ffencode_version\<close> stores, when it stores one.\<close>

definition version_found :: "(bytes \<Rightarrow> str option) \<Rightarrow> env \<Rightarrow> str option" where
  "version_found decode e =
    (case version_out e of
       None \<Rightarrow> None
     | Some buff \<Rightarrow> (case re_match_banner buff of None \<Rightarrow> None | Some g \<Rightarrow> decode g))"

text \<open>\<open>transcode\<close> reaches its polling loop: the output file opened or was not asked
  for, the version was found, and \<open>Popen\<close> started the child.\<close>

definition child_started :: "(bytes \<Rightarrow> str option) \<Rightarrow> env \<Rightarrow> fftranscode \<Rightarrow> bool" where
  "child_started decode e s =
    ((subprocess_out s = ''-'' \<or> open_ok e) \<and> version_found decode e \<noteq> None \<and> spawn_ok e)"

text \<open>The object as the polling loop finds it, after lines 284-288.\<close>

definition at_spawn :: "(bytes \<Rightarrow> str option) \<Rightarrow> env \<Rightarrow> fftranscode \<Rightarrow> fftranscode" where
  "at_spawn decode e s =
    (let (args, s) = gen_transcode_args (s\<lparr>ffmpeg_ver := version_found decode e\<rparr>)
     in s\<lparr>sp := Some (new_child e args), running := Some True\<rparr>)"

text \<open>The configuration the object holds: the attributes \<open>__init__\<close> takes from its
  arguments (lines 157-168).\<close>

definition config ::
  "fftranscode \<Rightarrow>
    bool \<times> str \<times> str \<times> str \<times> str \<times> str \<times> str \<times> str \<times> str \<times> str \<times> str \<times> bool" where
  "config s =
    (niced s, input_file s, output_file s, codec_lib s, profile s, level s, preset s, crf s,
     tune s, extra s, subprocess_out s, interactive s)"

section \<open>Properties of the argument builder\<close>

lemma split_ws_all_space: "list_all py_isspace cs \<Longrightarrow> split_ws [] cs = []"
  by (induction cs) auto

lemma gen_output_file_name_last: "last (gen_output_file_name s) = CHR ''v''"
  by (simp add: gen_output_file_name_def Let_def)

lemma gen_output_file_name_not_flag: "gen_output_file_name s \<noteq> ''-tune''"
proof
  assume "gen_output_file_name s = ''-tune''"
  then have "last (gen_output_file_name s) = last ''-tune''" by simp
  then show False by (simp add: gen_output_file_name_last)
qed

text \<open>
  C6: for input \<open>movie.mp4\<close>, codec \<open>libx264\<close>, profile \<open>High\<close>, level \<open>6.2\<close>, preset
  \<open>9\<close>, crf \<open>17\<close>, empty tune and engine version \<open>6.0\<close>, whatever the other attributes
  are, the generated name is \<open>movie - ffmpeg:6.0_c:libx264_p:High_l:6.2_r:9_f:17.mkv\<close>.
\<close>

theorem gen_output_file_name_example:
  "gen_output_file_name
     (s\<lparr>input_file := ''movie.mp4'', codec_lib := ''libx264'', profile := ''High'',
        level := ''6.2'', preset := ''9'', crf := ''17'', tune := '''',
        ffmpeg_ver := Some ''6.0''\<rparr>)
   = ''movie - ffmpeg:6.0_c:libx264_p:High_l:6.2_r:9_f:17.mkv''"
  by (simp add: gen_output_file_name_def drop_last4_def str_of_ver_def)

text \<open>
  C7, as the code has it: when none of the strings the configuration hands to the
  argument vector (input path, codec, profile, level, preset, crf, tune, the tokens of
  extra, the configured output path) is itself \<open>-tune\<close>, an empty tune gives an argument
  vector without \<open>-tune\<close>, and a non-empty tune gives one with exactly one \<open>-tune\<close>,
  which the tune value follows at once.
\<close>

theorem tune_flag_once:
  assumes "''-tune'' \<notin> set (user_tokens s)"
  shows "(tune s = '''' \<longrightarrow> ''-tune'' \<notin> set (fst (gen_transcode_args s)))
    \<and> (tune s \<noteq> '''' \<longrightarrow>
          count_list (fst (gen_transcode_args s)) ''-tune'' = 1
        \<and> (\<exists>pre post. fst (gen_transcode_args s) = pre @ [''-tune'', tune s] @ post
              \<and> ''-tune'' \<notin> set pre \<and> ''-tune'' \<notin> set post))"
proof (intro conjI impI)
  assume "tune s = ''''"
  with assms show "''-tune'' \<notin> set (fst (gen_transcode_args s))"
    using gen_output_file_name_not_flag [of s]
    by (auto simp: gen_transcode_args_def Let_def user_tokens_def)
next
  assume t: "tune s \<noteq> ''''"
  define pre where "pre = (if niced s then [''nice''] else []) @
     [''ffmpeg'', ''-hide_banner'', ''-n'', ''-i'', input_file s, ''-map'', ''0'',
      ''-codec:a'', ''copy'', ''-codec:s'', ''copy'', ''-codec:v'', codec_lib s,
      ''-profile:v'', profile s, ''-level'', level s, ''-preset'', preset s,
      ''-crf'', crf s]"
  define post where "post = (if extra s \<noteq> '''' then py_split (extra s) else [])
     @ (if interactive s then [] else [''-nostdin''])
     @ [if output_file s = '''' then gen_output_file_name s else output_file s]"
  have eq: "fst (gen_transcode_args s) = pre @ [''-tune'', tune s] @ post"
    using t by (simp add: gen_transcode_args_def Let_def pre_def post_def)
  have p1: "''-tune'' \<notin> set pre"
    using assms by (auto simp: pre_def user_tokens_def)
  have p2: "''-tune'' \<notin> set post"
    using assms gen_output_file_name_not_flag [of s]
    by (auto simp: post_def user_tokens_def)
  have t2: "tune s \<noteq> ''-tune''"
    using assms by (auto simp: user_tokens_def)
  have c1: "count_list pre ''-tune'' = 0" using p1 by (simp add: count_list_0_iff)
  have c2: "count_list post ''-tune'' = 0" using p2 by (simp add: count_list_0_iff)
  show "count_list (fst (gen_transcode_args s)) ''-tune'' = 1"
    using c1 c2 t2 by (simp add: eq)
  show "\<exists>pre post. fst (gen_transcode_args s) = pre @ [''-tune'', tune s] @ post
            \<and> ''-tune'' \<notin> set pre \<and> ''-tune'' \<notin> set post"
    using eq p1 p2 by blast
qed

theorem tune_flag_once_witness:
  "''-tune'' \<notin> set (user_tokens (movie_config\<lparr>tune := ''film''\<rparr>))
   \<and> count_list (fst (gen_transcode_args (movie_config\<lparr>tune := ''film''\<rparr>))) ''-tune'' = 1
   \<and> ''-tune'' \<notin> set (user_tokens movie_config)
   \<and> ''-tune'' \<notin> set (fst (gen_transcode_args movie_config))"
proof -
  have h1: "''-tune'' \<notin> set (user_tokens (movie_config\<lparr>tune := ''film''\<rparr>))"
    by (simp add: movie_config_def Fftranscode_init_def user_tokens_def py_split_def)
  have h2: "''-tune'' \<notin> set (user_tokens movie_config)"
    by (simp add: movie_config_def Fftranscode_init_def user_tokens_def py_split_def)
  have t1: "tune (movie_config\<lparr>tune := ''film''\<rparr>) \<noteq> ''''" by simp
  have t2: "tune movie_config = ''''" by (simp add: movie_config_def Fftranscode_init_def)
  show ?thesis using tune_flag_once [OF h1] tune_flag_once [OF h2] h1 h2 t1 t2 by blast
qed

text \<open>
  C7, as the claim states it, fails: with an empty tune and the extra arguments
  \<open>-tune film\<close>, the argument vector contains \<open>-tune\<close>.
\<close>

theorem tune_flag_from_extra:
  "tune (movie_config\<lparr>extra := ''-tune film''\<rparr>) = ''''
   \<and> ''-tune'' \<in> set (fst (gen_transcode_args (movie_config\<lparr>extra := ''-tune film''\<rparr>)))"
  by (simp add: movie_config_def Fftranscode_init_def gen_transcode_args_def Let_def
      py_split_def py_isspace_def)

text \<open>
  C8: the argument vector is never empty, and its last element is the resolved output
  path: the configured \<open>output_file\<close>, or the generated name when that is empty. It is
  also the \<open>output_file\<close> the object holds afterwards.
\<close>

theorem gen_transcode_args_ends_with_output:
  "fst (gen_transcode_args s) \<noteq> []
   \<and> last (fst (gen_transcode_args s))
       = (if output_file s = '''' then gen_output_file_name s else output_file s)
   \<and> last (fst (gen_transcode_args s)) = output_file (snd (gen_transcode_args s))"
  by (simp add: gen_transcode_args_def Let_def)

text \<open>
  C10: when \<open>extra\<close> is not empty and every character of it is whitespace, the argument
  vector is the one built for the same configuration with an empty \<open>extra\<close>.
\<close>

theorem whitespace_extra_adds_nothing:
  assumes "extra s \<noteq> ''''" and "list_all py_isspace (extra s)"
  shows "fst (gen_transcode_args s) = fst (gen_transcode_args (s\<lparr>extra := ''''\<rparr>))"
  using assms
  by (simp add: gen_transcode_args_def Let_def py_split_def split_ws_all_space
      gen_output_file_name_def)

theorem whitespace_extra_adds_nothing_witness:
  "extra (movie_config\<lparr>extra := [CHR '' '', CHR 0x09, CHR 0x0A, CHR 0xA0]\<rparr>) \<noteq> ''''
   \<and> list_all py_isspace (extra (movie_config\<lparr>extra := [CHR '' '', CHR 0x09, CHR 0x0A, CHR 0xA0]\<rparr>))
   \<and> fst (gen_transcode_args (movie_config\<lparr>extra := [CHR '' '', CHR 0x09, CHR 0x0A, CHR 0xA0]\<rparr>))
       = fst (gen_transcode_args movie_config)"
proof -
  have a: "extra (movie_config\<lparr>extra := [CHR '' '', CHR 0x09, CHR 0x0A, CHR 0xA0]\<rparr>) \<noteq> ''''"
    by simp
  have b: "list_all py_isspace
      (extra (movie_config\<lparr>extra := [CHR '' '', CHR 0x09, CHR 0x0A, CHR 0xA0]\<rparr>))"
    by (simp add: py_isspace_def)
  have c: "movie_config\<lparr>extra := [CHR '' '', CHR 0x09, CHR 0x0A, CHR 0xA0], extra := ''''\<rparr>
      = movie_config"
    by (simp add: movie_config_def Fftranscode_init_def)
  show ?thesis
    using whitespace_extra_adds_nothing [OF a b] a b c by simp
qed

section \<open>Properties of the process supervisor\<close>

subsection \<open>One poll, and the polling loop\<close>

lemma handle_subprocess_running:
  assumes "sp s = Some p" "returncode p = None" "os_answer p = None"
  shows "handle_subprocess s =
    (Return (), s\<lparr>sp := Some (p\<lparr>os_queries := Suc (os_queries p)\<rparr>)\<rparr>)"
  using assms by (simp add: handle_subprocess_def sp_poll_def Let_def)

lemma handle_subprocess_exited:
  assumes "sp s = Some p" "returncode p = None" "os_answer p = Some c"
  shows "handle_subprocess s =
    (Return (), s\<lparr>sp := Some (p\<lparr>returncode := Some c, os_queries := Suc (os_queries p)\<rparr>),
                  running := Some False, exit_code := Some c\<rparr>)"
  using assms by (simp add: handle_subprocess_def sp_poll_def Let_def)

lemma transcode_loop_stopped:
  "running s \<noteq> Some True \<or> max_waits s \<le> num_waits s \<Longrightarrow> transcode_loop s = (Return (), s)"
  by (subst transcode_loop.simps) auto

text \<open>A child that \<open>d\<close> more polls see running and the next one sees exited, with the
  ceiling more than \<open>d\<close> polls away: the loop makes \<open>d + 1\<close> polls and stores the exit
  code.\<close>

lemma transcode_loop_exits:
  assumes "running s = Some True" "sp s = Some p" "returncode p = None"
    and "exits_after p = Some n" "d = n - os_queries p"
    and "num_waits s + int d < max_waits s"
  shows "transcode_loop s =
    (Return (), s\<lparr>num_waits := num_waits s + int d + 1,
                  sp := Some (p\<lparr>returncode := Some (exit_status p),
                               os_queries := Suc (os_queries p + d)\<rparr>),
                  running := Some False, exit_code := Some (exit_status p)\<rparr>)"
  using assms
proof (induction d arbitrary: s p)
  case 0
  then have a: "os_answer p = Some (exit_status p)" by (simp add: os_answer_def)
  let ?s1 = "s\<lparr>num_waits := num_waits s + 1\<rparr>"
  have h: "handle_subprocess ?s1 =
    (Return (), ?s1\<lparr>sp := Some (p\<lparr>returncode := Some (exit_status p),
                                   os_queries := Suc (os_queries p)\<rparr>),
                    running := Some False, exit_code := Some (exit_status p)\<rparr>)"
    using 0 a by (intro handle_subprocess_exited) simp_all
  show ?case
    using 0 by (subst transcode_loop.simps) (simp add: h transcode_loop_stopped)
next
  case (Suc d)
  then have a: "os_answer p = None" by (simp add: os_answer_def)
  let ?s1 = "s\<lparr>num_waits := num_waits s + 1\<rparr>"
  let ?p1 = "p\<lparr>os_queries := Suc (os_queries p)\<rparr>"
  let ?s2 = "?s1\<lparr>sp := Some ?p1\<rparr>"
  have h: "handle_subprocess ?s1 = (Return (), ?s2)"
    using Suc.prems a by (intro handle_subprocess_running) simp_all
  have ih: "transcode_loop ?s2 =
    (Return (), ?s2\<lparr>num_waits := num_waits ?s2 + int d + 1,
                  sp := Some (?p1\<lparr>returncode := Some (exit_status ?p1),
                               os_queries := Suc (os_queries ?p1 + d)\<rparr>),
                  running := Some False, exit_code := Some (exit_status ?p1)\<rparr>)"
    using Suc.prems by (intro Suc.IH) auto
  show ?case
    using Suc.prems by (subst transcode_loop.simps) (simp add: h ih)
qed

text \<open>A child that every poll up to the ceiling sees running: the loop polls until the
  counter is at the ceiling and changes nothing else.\<close>

lemma transcode_loop_ceiling:
  assumes "running s = Some True" "sp s = Some p" "returncode p = None"
    and "k = nat (max_waits s - num_waits s)" "num_waits s \<le> max_waits s"
    and "case exits_after p of None \<Rightarrow> True | Some n \<Rightarrow> os_queries p + k \<le> n"
  shows "transcode_loop s =
    (Return (), s\<lparr>num_waits := max_waits s,
                  sp := Some (p\<lparr>os_queries := os_queries p + k\<rparr>)\<rparr>)"
  using assms
proof (induction k arbitrary: s p)
  case 0
  then have "num_waits s = max_waits s" by simp
  then show ?case using 0 by (subst transcode_loop.simps) simp
next
  case (Suc k)
  then have a: "os_answer p = None" by (auto simp add: os_answer_def split: option.splits)
  let ?s1 = "s\<lparr>num_waits := num_waits s + 1\<rparr>"
  let ?p1 = "p\<lparr>os_queries := Suc (os_queries p)\<rparr>"
  let ?s2 = "?s1\<lparr>sp := Some ?p1\<rparr>"
  have h: "handle_subprocess ?s1 = (Return (), ?s2)"
    using Suc.prems a by (intro handle_subprocess_running) simp_all
  have ih: "transcode_loop ?s2 =
    (Return (), ?s2\<lparr>num_waits := max_waits ?s2,
                  sp := Some (?p1\<lparr>os_queries := os_queries ?p1 + k\<rparr>)\<rparr>)"
    using Suc.prems by (intro Suc.IH) (auto split: option.splits)
  show ?case
    using Suc.prems by (subst transcode_loop.simps) (simp add: h ih)
qed

subsection \<open>\<open>transcode\<close> once the child has started\<close>

lemma gen_transcode_args_waits:
  "num_waits (snd (gen_transcode_args s)) = num_waits s"
  "max_waits (snd (gen_transcode_args s)) = max_waits s"
  "wait_interval (snd (gen_transcode_args s)) = wait_interval s"
  by (simp_all add: gen_transcode_args_def Let_def)

lemma at_spawn_simps:
  "num_waits (at_spawn decode e s) = num_waits s"
  "max_waits (at_spawn decode e s) = max_waits s"
  "wait_interval (at_spawn decode e s) = wait_interval s"
  "running (at_spawn decode e s) = Some True"
  "sp (at_spawn decode e s) =
     Some (new_child e (fst (gen_transcode_args (s\<lparr>ffmpeg_ver := version_found decode e\<rparr>))))"
  by (simp_all add: at_spawn_def Let_def case_prod_unfold gen_transcode_args_waits)

lemma transcode_started:
  assumes "child_started decode e s"
  shows "transcode decode e (s, ps) =
    bind_result
      (case transcode_loop (at_spawn decode e s) of
         (r, s') \<Rightarrow> (r, (s', ps @ [[''ffmpeg'', ''-version''],
              fst (gen_transcode_args (s\<lparr>ffmpeg_ver := version_found decode e\<rparr>))])))
      (\<lambda>_ (s, ps).
         if num_waits s = max_waits s then (Raise (timeout_exn s), (s, ps))
         else (Return (exit_code s), (s, ps)))"
proof -
  from assms obtain buff g ver where v: "version_out e = Some buff"
      "re_match_banner buff = Some g" "decode g = Some ver"
    by (auto simp add: child_started_def version_found_def split: option.splits)
  then have f: "version_found decode e = Some ver"
    by (simp add: version_found_def)
  have o: "(subprocess_out s \<noteq> ''-'' \<and> \<not> open_ok e) = False" and sp: "spawn_ok e"
    using assms by (auto simp add: child_started_def)
  show ?thesis
    unfolding timeout_exn_def
    by (simp add: transcode_def get_ffencode_version_def v f o sp at_spawn_def
        Let_def case_prod_unfold)
qed

text \<open>What \<open>transcode\<close> gives once the child has started, for an object whose counter is
  below the ceiling: with \<open>n\<close> polls seeing the child running, poll \<open>n + 1\<close> finds its
  exit code; \<open>transcode\<close> returns that code when this poll comes before the ceiling, and
  raises the exception of line 297 otherwise.\<close>

lemma transcode_outcome:
  assumes "child_started decode e s" and "num_waits s < max_waits s"
  shows "fst (transcode decode e (s, ps)) =
    (case child_exits_after e of
       None \<Rightarrow> Raise (timeout_exn s)
     | Some n \<Rightarrow>
         if num_waits s + int n + 1 < max_waits s then Return (Some (child_exit_status e))
         else Raise (timeout_exn s))"
proof -
  note t = transcode_started [OF assms(1), of ps]
  define args where
    "args = fst (gen_transcode_args (s\<lparr>ffmpeg_ver := version_found decode e\<rparr>))"
  have c: "sp (at_spawn decode e s) = Some (new_child e args)"
    by (simp add: at_spawn_simps args_def)
  let ?s = "at_spawn decode e s" and ?p = "new_child e args"
  have r: "running ?s = Some True" "returncode ?p = None" "os_queries ?p = 0"
    "exits_after ?p = child_exits_after e" "exit_status ?p = child_exit_status e"
    by (simp_all add: at_spawn_simps new_child_def)
  show ?thesis
  proof (cases "\<exists>n. child_exits_after e = Some n \<and> num_waits s + int n < max_waits s")
    case True
    then obtain n where n: "child_exits_after e = Some n" "num_waits s + int n < max_waits s"
      by blast
    have "transcode_loop ?s =
      (Return (), ?s\<lparr>num_waits := num_waits ?s + int n + 1,
                  sp := Some (?p\<lparr>returncode := Some (exit_status ?p),
                               os_queries := Suc (os_queries ?p + n)\<rparr>),
                  running := Some False, exit_code := Some (exit_status ?p)\<rparr>)"
      using r c n by (intro transcode_loop_exits) (simp_all add: at_spawn_simps)
    then show ?thesis
      using n r by (simp add: t at_spawn_simps timeout_exn_def)
  next
    case False
    have "transcode_loop ?s =
      (Return (), ?s\<lparr>num_waits := max_waits ?s,
                  sp := Some (?p\<lparr>os_queries :=
                     os_queries ?p + nat (max_waits ?s - num_waits ?s)\<rparr>)\<rparr>)"
      using r c False assms(2)
      by (intro transcode_loop_ceiling) (auto simp add: at_spawn_simps split: option.splits)
    then show ?thesis
      using False by (auto simp add: t at_spawn_simps timeout_exn_def split: option.splits)
  qed
qed

text \<open>The object \<open>transcode\<close> leaves when a poll up to the ceiling finds the child
  exited: the exit code is stored and \<open>running\<close> is false, also when that poll is the
  one at the ceiling.\<close>

lemma transcode_final_state:
  assumes "child_started decode e s" and "child_exits_after e = Some n"
    and "num_waits s + int n < max_waits s"
  shows "exit_code (fst (snd (transcode decode e (s, ps)))) = Some (child_exit_status e)
    \<and> running (fst (snd (transcode decode e (s, ps)))) = Some False
    \<and> num_waits (fst (snd (transcode decode e (s, ps)))) = num_waits s + int n + 1"
proof -
  note t = transcode_started [OF assms(1), of ps]
  define args where
    "args = fst (gen_transcode_args (s\<lparr>ffmpeg_ver := version_found decode e\<rparr>))"
  have c: "sp (at_spawn decode e s) = Some (new_child e args)"
    by (simp add: at_spawn_simps args_def)
  let ?s = "at_spawn decode e s" and ?p = "new_child e args"
  have r: "running ?s = Some True" "returncode ?p = None" "os_queries ?p = 0"
    "exits_after ?p = child_exits_after e" "exit_status ?p = child_exit_status e"
    by (simp_all add: at_spawn_simps new_child_def)
  have "transcode_loop ?s =
      (Return (), ?s\<lparr>num_waits := num_waits ?s + int n + 1,
                  sp := Some (?p\<lparr>returncode := Some (exit_status ?p),
                               os_queries := Suc (os_queries ?p + n)\<rparr>),
                  running := Some False, exit_code := Some (exit_status ?p)\<rparr>)"
    using r c assms by (intro transcode_loop_exits) (simp_all add: at_spawn_simps)
  then show ?thesis
    using r by (simp add: t at_spawn_simps)
qed

text \<open>The processes \<open>transcode\<close> has started by then: the version query and the
  child.\<close>

lemma transcode_children:
  assumes "child_started decode e s"
  shows "snd (snd (transcode decode e (s, ps))) =
    ps @ [[''ffmpeg'', ''-version''],
          fst (gen_transcode_args (s\<lparr>ffmpeg_ver := version_found decode e\<rparr>))]"
proof -
  obtain r s' where l: "transcode_loop (at_spawn decode e s) = (r, s')"
    by (cases "transcode_loop (at_spawn decode e s)")
  show ?thesis
    by (cases r) (simp_all add: transcode_started [OF assms] l)
qed

subsection \<open>The examples\<close>

lemma banner_version: "re_match_banner banner = Some ''6.0''"
  by (simp add: re_match_banner_def banner_def)

lemma movie_started: "child_started decode_ascii (env_of_child n c) movie_config"
  by (simp add: child_started_def version_found_def env_of_child_def banner_version
      decode_ascii_def movie_config_def Fftranscode_init_def)

lemma movie_waits:
  "num_waits movie_config = 0" "max_waits movie_config = 604800"
  "wait_interval movie_config = 1"
  by (simp_all add: movie_config_def Fftranscode_init_def)

lemma movie_timeout_exn:
  "timeout_exn movie_config = Exception ''Transcode took longer tham max 604800 seconds.''"
  by (simp add: timeout_exn_def movie_waits str_int_def)

text \<open>A child found exited with code 137 by poll 604799, the last one before the
  ceiling: \<open>transcode\<close> returns 137.\<close>

lemma transcode_returns_137_before_ceiling:
  "fst (transcode decode_ascii (env_of_child (Some 604798) 137) (movie_config, []))
     = Return (Some 137)"
  using transcode_outcome [OF movie_started, of "Some 604798" 137 "[]"]
  by (simp add: movie_waits env_of_child_def)

text \<open>A child that never exits: \<open>transcode\<close> raises the exception of line 297.\<close>

lemma transcode_raises_for_endless_child:
  "fst (transcode decode_ascii (env_of_child None 0) (movie_config, []))
     = Raise (Exception ''Transcode took longer tham max 604800 seconds.'')"
  using transcode_outcome [OF movie_started, of None 0 "[]"]
  by (simp add: movie_waits env_of_child_def movie_timeout_exn)

subsection \<open>The claims about the supervisor\<close>

text \<open>
  C1, what the code does at a miss: when the banner pattern does not match the output
  of \<open>ffmpeg -version\<close>, \<open>get_ffencode_version\<close> raises \<open>UnboundLocalError\<close> and leaves
  the object as it was, and \<open>transcode\<close> ends with that exception, having started no
  process but the version query.
\<close>

theorem version_miss_raises:
  assumes "re_match_banner buff = None"
  shows "get_ffencode_version decode (Some buff) (s, ps)
      = (Raise UnboundLocalError, (s, ps @ [[''ffmpeg'', ''-version'']]))
    \<and> transcode decode (e\<lparr>open_ok := True, version_out := Some buff\<rparr>) (s, ps)
      = (Raise UnboundLocalError, (s, ps @ [[''ffmpeg'', ''-version'']]))"
  using assms by (simp add: get_ffencode_version_def transcode_def)

theorem version_miss_raises_witness:
  "re_match_banner '''' = None
   \<and> get_ffencode_version decode_ascii (Some '''') (movie_config, [])
      = (Raise UnboundLocalError, (movie_config, [[''ffmpeg'', ''-version'']]))
   \<and> transcode decode_ascii (env_of_child None 0\<lparr>open_ok := True, version_out := Some ''''\<rparr>)
        (movie_config, [])
      = (Raise UnboundLocalError, (movie_config, [[''ffmpeg'', ''-version'']]))"
proof -
  have h: "re_match_banner '''' = None" by (simp add: re_match_banner_def)
  show ?thesis
    using version_miss_raises [OF h, of decode_ascii movie_config "[]" "env_of_child None 0"] h
    by simp
qed

text \<open>The script then ends with the traceback of that exception.\<close>

lemma main_version_miss:
  "ending (main decode_ascii (env_of_child None 0\<lparr>version_out := Some ''''\<rparr>)
      (default_options\<lparr>opt_input_file := ''movie.mp4''\<rparr>)) = Traceback UnboundLocalError"
  by (simp add: main_def default_options_def env_of_child_def transcode_def
      get_ffencode_version_def Fftranscode_init_def re_match_banner_def cancel_transcode_def
      Let_def)

text \<open>
  C2, what the code does at the ceiling: for the default configuration and a child that
  polls 1 to 604799 see running and poll 604800 finds exited with code 0, \<open>transcode\<close>
  raises the exception of line 297, although the object it leaves holds the exit code
  and \<open>running\<close> is false.
\<close>

theorem transcode_raises_for_exit_at_ceiling:
  "fst (transcode decode_ascii (env_of_child (Some 604799) 0) (movie_config, []))
     = Raise (Exception ''Transcode took longer tham max 604800 seconds.'')
   \<and> exit_code (fst (snd (transcode decode_ascii (env_of_child (Some 604799) 0)
        (movie_config, [])))) = Some 0
   \<and> running (fst (snd (transcode decode_ascii (env_of_child (Some 604799) 0)
        (movie_config, [])))) = Some False"
proof -
  have e: "child_exits_after (env_of_child (Some 604799) 0) = Some 604799"
      "child_exit_status (env_of_child (Some 604799) 0) = 0"
    by (simp_all add: env_of_child_def)
  have 1: "fst (transcode decode_ascii (env_of_child (Some 604799) 0) (movie_config, []))
     = Raise (timeout_exn movie_config)"
    using transcode_outcome [OF movie_started, of "Some 604799" 0 "[]"]
    by (simp add: movie_waits e)
  have 2: "exit_code (fst (snd (transcode decode_ascii (env_of_child (Some 604799) 0)
        (movie_config, [])))) = Some 0
   \<and> running (fst (snd (transcode decode_ascii (env_of_child (Some 604799) 0)
        (movie_config, [])))) = Some False"
    using transcode_final_state [OF movie_started, of "Some 604799" 0 604799 "[]"]
    by (simp add: movie_waits e)
  show ?thesis using 1 2 movie_timeout_exn by simp
qed

text \<open>
  C3, what the code does at the ceiling: for the default configuration and a child that
  poll 604800 finds exited with code 137, \<open>transcode\<close> does not return 137 but raises
  the exception of line 297; the object it leaves holds the exit code 137.
\<close>

theorem transcode_drops_exit_code_at_ceiling:
  "fst (transcode decode_ascii (env_of_child (Some 604799) 137) (movie_config, []))
     = Raise (Exception ''Transcode took longer tham max 604800 seconds.'')
   \<and> exit_code (fst (snd (transcode decode_ascii (env_of_child (Some 604799) 137)
        (movie_config, [])))) = Some 137"
proof -
  have e: "child_exits_after (env_of_child (Some 604799) 137) = Some 604799"
      "child_exit_status (env_of_child (Some 604799) 137) = 137"
    by (simp_all add: env_of_child_def)
  have 1: "fst (transcode decode_ascii (env_of_child (Some 604799) 137) (movie_config, []))
     = Raise (timeout_exn movie_config)"
    using transcode_outcome [OF movie_started, of "Some 604799" 137 "[]"]
    by (simp add: movie_waits e)
  have 2: "exit_code (fst (snd (transcode decode_ascii (env_of_child (Some 604799) 137)
        (movie_config, [])))) = Some 137"
    using transcode_final_state [OF movie_started, of "Some 604799" 137 604799 "[]"]
    by (simp add: movie_waits e)
  show ?thesis using 1 2 movie_timeout_exn by simp
qed

text \<open>
  C4: \<open>cancel_transcode\<close> sends SIGKILL and then blocks in \<open>wait\<close> exactly when a child
  exists and has not exited, and sends and waits for nothing otherwise; afterwards no
  child is alive. With \<open>exit\<close> set it raises \<open>SystemExit(2)\<close>, which ends the
  interpreter with status 2; with \<open>exit\<close> unset it returns. Without a child it leaves
  the object as it was.
\<close>

theorem cancel_transcode_kills_live_child:
  "fst (cancel_transcode ex s) = (if ex then Raise (SystemExit 2) else Return ())
   \<and> events_of (snd (cancel_transcode ex s))
       = events_of s @ (if child_alive s then [Sent_SIGKILL, Blocked_wait] else [])
   \<and> \<not> child_alive (snd (cancel_transcode ex s))
   \<and> (sp s = None \<longrightarrow> snd (cancel_transcode ex s) = s)
   \<and> uncaught (SystemExit 2) = SysExit (Some 2)"
  by (cases "sp s")
     (auto simp add: cancel_transcode_def sp_kill_def sp_poll_def sp_wait_def events_of_def
        child_alive_def uncaught_def Let_def split: option.splits)

theorem cancel_transcode_kills_live_child_witness:
  "child_alive (at_spawn decode_ascii (env_of_child None 0) movie_config)
   \<and> events_of (snd (cancel_transcode False
        (at_spawn decode_ascii (env_of_child None 0) movie_config)))
       = [Sent_SIGKILL, Blocked_wait]
   \<and> fst (cancel_transcode False (at_spawn decode_ascii (env_of_child None 0) movie_config))
       = Return ()
   \<and> fst (cancel_transcode True (at_spawn decode_ascii (env_of_child None 0) movie_config))
       = Raise (SystemExit 2)
   \<and> snd (cancel_transcode True movie_config) = movie_config"
proof -
  let ?s = "at_spawn decode_ascii (env_of_child None 0) movie_config"
  have a: "child_alive ?s"
    by (simp add: child_alive_def at_spawn_simps new_child_def os_answer_def env_of_child_def)
  have b: "events_of ?s = []"
    by (simp add: events_of_def at_spawn_simps new_child_def)
  have c: "sp movie_config = None"
    by (simp add: movie_config_def Fftranscode_init_def)
  show ?thesis
    using cancel_transcode_kills_live_child [of False ?s]
      cancel_transcode_kills_live_child [of True ?s]
      cancel_transcode_kills_live_child [of True movie_config] a b c
    by simp
qed

text \<open>
  C9: with an empty input file option the script prints the error line, ends through
  \<open>sys.exit(1)\<close>, and has started no process and built no supervisor.
\<close>

theorem main_without_input_file:
  assumes "opt_input_file opts = ''''"
  shows "main decode e opts =
    \<lparr>ending = SysExit (Some 1), stdout = [Line ''ERROR: input file must be set.''],
     children = [], final = None\<rparr>"
  using assms by (simp add: main_def)

theorem main_without_input_file_witness:
  "opt_input_file default_options = ''''
   \<and> main decode_ascii (env_of_child (Some 3) 0) default_options =
      \<lparr>ending = SysExit (Some 1), stdout = [Line ''ERROR: input file must be set.''],
       children = [], final = None\<rparr>"
proof -
  have h: "opt_input_file default_options = ''''" by (simp add: default_options_def)
  show ?thesis
    using main_without_input_file [OF h, of decode_ascii "env_of_child (Some 3) 0"] h by simp
qed

text \<open>With an input file the same surroundings do start the version query and the
  child: the run below ends with the exit code 0 of the child.\<close>

lemma main_with_input_file:
  "ending (main decode_ascii (env_of_child (Some 3) 0)
       (default_options\<lparr>opt_input_file := ''movie.mp4''\<rparr>)) = SysExit (Some 0)
   \<and> length (children (main decode_ascii (env_of_child (Some 3) 0)
       (default_options\<lparr>opt_input_file := ''movie.mp4''\<rparr>))) = 2"
proof -
  have i: "Fftranscode_init (\<not> opt_not_nice default_options) ''movie.mp4''
      (opt_output_file default_options) (opt_codec default_options)
      (opt_profile default_options) (opt_level default_options)
      (opt_preset default_options) (opt_crf default_options) (opt_tune default_options)
      (opt_extra default_options) (opt_subprocess_out_file default_options)
      (opt_interactive default_options) = movie_config"
    by (simp add: default_options_def movie_config_def)
  have r: "fst (transcode decode_ascii (env_of_child (Some 3) 0) (movie_config, []))
      = Return (Some 0)"
    using transcode_outcome [OF movie_started, of "Some 3" 0 "[]"]
    by (simp add: movie_waits env_of_child_def)
  have l: "length (snd (snd (transcode decode_ascii (env_of_child (Some 3) 0)
      (movie_config, [])))) = 2"
    by (simp add: transcode_children [OF movie_started])
  obtain s ps where t: "transcode decode_ascii (env_of_child (Some 3) 0) (movie_config, [])
      = (Return (Some 0), (s, ps))"
    using r by (metis prod.collapse)
  then have "length ps = 2" using l by simp
  then show ?thesis
    by (simp add: main_def i t Let_def)
qed

subsection \<open>The configuration\<close>

lemma cancel_transcode_config: "config (snd (cancel_transcode ex s)) = config s"
  by (simp add: cancel_transcode_def config_def Let_def split: option.splits)

lemma handle_subprocess_config: "config (snd (handle_subprocess s)) = config s"
  by (auto simp add: handle_subprocess_def cancel_transcode_def config_def Let_def
      split: option.splits)

lemma transcode_loop_config: "config (snd (transcode_loop s)) = config s"
proof (induction s rule: transcode_loop.induct)
  case (1 s)
  let ?s1 = "s\<lparr>num_waits := num_waits s + 1\<rparr>"
  obtain r s' where h: "handle_subprocess ?s1 = (r, s')"
    by (cases "handle_subprocess ?s1")
  have c: "config s' = config s"
    using handle_subprocess_config [of ?s1] by (simp add: h config_def)
  show ?case
  proof (cases "running s = Some True \<and> num_waits s < max_waits s")
    case True
    show ?thesis
    proof (cases r)
      case (Return u)
      then have "config (snd (transcode_loop s')) = config s'"
        using 1 True h by simp
      then show ?thesis
        using True h Return c by (subst transcode_loop.simps) simp
    next
      case (Raise x)
      then show ?thesis using True h c by (subst transcode_loop.simps) simp
    next
      case Hang
      then show ?thesis using True h c by (subst transcode_loop.simps) simp
    qed
  next
    case False
    then show ?thesis by (subst transcode_loop.simps) auto
  qed
qed

lemma get_ffencode_version_config:
  "config (fst (snd (get_ffencode_version decode out (s, ps)))) = config s"
  by (simp add: get_ffencode_version_def config_def Let_def split: option.splits)

lemma get_ffencode_version_cases:
  "get_ffencode_version decode (version_out e) (s, ps) =
    (case version_found decode e of
       Some v \<Rightarrow> (Return (), (s\<lparr>ffmpeg_ver := Some v\<rparr>, ps @ [[''ffmpeg'', ''-version'']]))
     | None \<Rightarrow> (fst (get_ffencode_version decode (version_out e) (s, ps)),
                (s, snd (snd (get_ffencode_version decode (version_out e) (s, ps))))))"
  by (simp add: get_ffencode_version_def version_found_def Let_def split: option.splits)

lemma gen_transcode_args_config:
  "config (snd (gen_transcode_args s)) =
     config (s\<lparr>output_file :=
        if output_file s = '''' then gen_output_file_name s else output_file s\<rparr>)"
  by (simp add: gen_transcode_args_def config_def Let_def)

lemma gen_transcode_args_depends:
  assumes "config s = config t" and "ffmpeg_ver s = ffmpeg_ver t"
  shows "fst (gen_transcode_args s) = fst (gen_transcode_args t)"
  using assms by (simp add: gen_transcode_args_def gen_output_file_name_def config_def Let_def)

lemma transcode_config:
  "config (fst (snd (transcode decode e (s, ps)))) = config s
   \<or> (output_file s = '''' \<and>
       config (fst (snd (transcode decode e (s, ps)))) =
         config (s\<lparr>output_file :=
            gen_output_file_name (s\<lparr>ffmpeg_ver := version_found decode e\<rparr>)\<rparr>))"
proof (cases "subprocess_out s \<noteq> ''-'' \<and> \<not> open_ok e")
  case True
  then show ?thesis by (simp add: transcode_def)
next
  case False
  then have no: "(subprocess_out s \<noteq> ''-'' \<and> \<not> open_ok e) = False" by simp
  show ?thesis
  proof (cases "version_found decode e")
    case None
    then have "fst (snd (transcode decode e (s, ps))) = s"
      by (auto simp add: transcode_def no get_ffencode_version_def version_found_def Let_def
          split: option.splits)
    then show ?thesis by simp
  next
    case (Some v)
    let ?s1 = "s\<lparr>ffmpeg_ver := Some v\<rparr>"
    let ?s2 = "snd (gen_transcode_args ?s1)"
    let ?args = "fst (gen_transcode_args ?s1)"
    have g: "get_ffencode_version decode (version_out e) (s, ps)
        = (Return (), (?s1, ps @ [[''ffmpeg'', ''-version'']]))"
      using get_ffencode_version_cases [of decode e s ps] Some by simp
    have c2: "config ?s2 = config (s\<lparr>output_file :=
        if output_file s = '''' then gen_output_file_name ?s1 else output_file s\<rparr>)"
      using gen_transcode_args_config [of ?s1] by (simp add: config_def)
    show ?thesis
    proof (cases "spawn_ok e")
      case False
      then have "fst (snd (transcode decode e (s, ps))) = ?s2"
        by (simp add: transcode_def g no case_prod_unfold)
      then show ?thesis using c2 Some by (auto simp add: config_def)
    next
      case True
      let ?s3 = "?s2\<lparr>sp := Some (new_child e ?args), running := Some True\<rparr>"
      obtain r s4 where l: "transcode_loop ?s3 = (r, s4)"
        by (cases "transcode_loop ?s3")
      have c4: "config s4 = config ?s2"
        using transcode_loop_config [of ?s3] by (simp add: l config_def)
      have "fst (snd (transcode decode e (s, ps))) = s4"
        using True by (cases r) (simp_all add: transcode_def g no case_prod_unfold Let_def l)
      then show ?thesis using c2 c4 Some by (auto simp add: config_def)
    qed
  qed
qed

text \<open>
  C5, as the code has it: the configuration the supervisor holds is never changed after
  construction, with one exception: when the configured output path is empty, the
  argument builder stores the generated name in \<open>output_file\<close> (line 252). So
  \<open>gen_transcode_args\<close> changes no attribute other than \<open>output_file\<close>, keeps a
  non-empty one and with it the whole object, and replaces an empty one by the generated
  name; the argument vector it returns is a function of the configuration and the engine
  version alone; the version query, one poll, the polling loop and \<open>cancel_transcode\<close>
  leave the whole configuration as it is; and \<open>transcode\<close> leaves it as it is or, when
  the output path was empty, with the generated name as the only change.
\<close>

theorem configuration_changes_only_empty_output_file:
  "(snd (gen_transcode_args s))\<lparr>output_file := output_file s\<rparr> = s
   \<and> (output_file s \<noteq> '''' \<longrightarrow> snd (gen_transcode_args s) = s)
   \<and> (output_file s = '''' \<longrightarrow>
        output_file (snd (gen_transcode_args s)) = gen_output_file_name s)
   \<and> (config s = config t \<and> ffmpeg_ver s = ffmpeg_ver t \<longrightarrow>
        fst (gen_transcode_args s) = fst (gen_transcode_args t))
   \<and> config (fst (snd (get_ffencode_version decode out (s, ps)))) = config s
   \<and> config (snd (handle_subprocess s)) = config s
   \<and> config (snd (transcode_loop s)) = config s
   \<and> config (snd (cancel_transcode ex s)) = config s
   \<and> (config (fst (snd (transcode decode e (s, ps)))) = config s
      \<or> (output_file s = '''' \<and>
          config (fst (snd (transcode decode e (s, ps)))) =
            config (s\<lparr>output_file :=
               gen_output_file_name (s\<lparr>ffmpeg_ver := version_found decode e\<rparr>)\<rparr>)))"
proof -
  have "(snd (gen_transcode_args s))\<lparr>output_file := output_file s\<rparr> = s"
    and "output_file s \<noteq> '''' \<longrightarrow> snd (gen_transcode_args s) = s"
    and "output_file s = '''' \<longrightarrow>
        output_file (snd (gen_transcode_args s)) = gen_output_file_name s"
    by (simp_all add: gen_transcode_args_def Let_def)
  moreover have "config s = config t \<and> ffmpeg_ver s = ffmpeg_ver t \<longrightarrow>
        fst (gen_transcode_args s) = fst (gen_transcode_args t)"
    using gen_transcode_args_depends by blast
  ultimately show ?thesis
    using get_ffencode_version_config [of decode out s ps] handle_subprocess_config [of s]
      transcode_loop_config [of s] cancel_transcode_config [of ex s]
      transcode_config [of decode e s ps]
    by blast
qed

theorem configuration_changes_only_empty_output_file_witness:
  "snd (gen_transcode_args (movie_config\<lparr>output_file := ''out.mkv''\<rparr>))
     = movie_config\<lparr>output_file := ''out.mkv''\<rparr>
   \<and> output_file (snd (gen_transcode_args movie_config)) = gen_output_file_name movie_config
   \<and> fst (gen_transcode_args (movie_config\<lparr>num_waits := 5\<rparr>))
       = fst (gen_transcode_args movie_config)
   \<and> config (fst (snd (transcode decode_ascii (env_of_child (Some 3) 0)
        (movie_config\<lparr>output_file := ''out.mkv''\<rparr>, []))))
       = config (movie_config\<lparr>output_file := ''out.mkv''\<rparr>)"
proof -
  have a: "output_file (movie_config\<lparr>output_file := ''out.mkv''\<rparr>) \<noteq> ''''" by simp
  have b: "output_file movie_config = ''''"
    by (simp add: movie_config_def Fftranscode_init_def)
  have c: "config (movie_config\<lparr>num_waits := 5\<rparr>) = config movie_config
      \<and> ffmpeg_ver (movie_config\<lparr>num_waits := 5\<rparr>) = ffmpeg_ver movie_config"
    by (simp add: config_def)
  show ?thesis
    using configuration_changes_only_empty_output_file
        [of "movie_config\<lparr>output_file := ''out.mkv''\<rparr>" _ decode_ascii _ "[]" _
          "env_of_child (Some 3) 0"]
      configuration_changes_only_empty_output_file [of movie_config]
      configuration_changes_only_empty_output_file
        [of "movie_config\<lparr>num_waits := 5\<rparr>" movie_config]
      a b c
    by blast
qed

text \<open>
  C5, as the claim states it, fails: for the default configuration, whose output path
  is empty, the argument builder leaves another \<open>output_file\<close> in the object than it
  found.
\<close>

theorem gen_transcode_args_mutates_output_file:
  "output_file (snd (gen_transcode_args movie_config)) \<noteq> output_file movie_config"
  by (simp add: movie_config_def Fftranscode_init_def gen_transcode_args_def Let_def
      gen_output_file_name_def)

end
